theory Spec2Isabelle
  imports Complex_Main
begin

section \<open>Conventions of the embedding\<close>

text \<open>
  The program is TypeScript. A JavaScript \<open>number\<close> that holds a measurement (a y-value,
  a pixel coordinate, a frame time) is modelled by a \<open>real\<close>: the values are taken to be
  finite and not NaN, and rounding is not modelled. A \<open>Date\<close> is its millisecond time
  value, an \<open>int\<close>; \<open>Date.getTime\<close> is the identity on it. Counts and array lengths are
  \<open>nat\<close>. An optional field or argument is an \<open>option\<close>.

  Record fields keep the source's names except where a name clashes with a HOL constant
  or would capture the variables of a statement: the coordinates and identifier of a
  time-series point are \<open>pt_x\<close>, \<open>pt_y\<close>, \<open>pt_id\<close>, and the \<open>min\<close> and \<open>max\<close> of a
  bucket are \<open>min_y\<close> and \<open>max_y\<close>. Where two interfaces have fields of the same name, or
  a field has a name as common as \<open>x\<close>, \<open>data\<close> or \<open>top\<close>, the field carries a prefix
  that names its interface: \<open>dp_\<close> for \<open>DataPoint\<close>, \<open>series_\<close> for \<open>SeriesData\<close>, \<open>fm_\<close> for
  \<open>FrameMetrics\<close>, \<open>ps_\<close> for \<open>PerformanceSnapshot\<close>, \<open>ev_\<close> for \<open>TierSwitchEvent\<close>,
  \<open>hit_\<close> for \<open>HitTestResult\<close>, \<open>ctx_\<close> and \<open>m_\<close> for \<open>RenderContext\<close> and its margin.

  A clock reading \<open>performance.now()\<close> is an argument of the function that takes it; a
  function that reads the clock several times in one call gets one reading.
\<close>

section \<open>LOD module (lod.ts)\<close>

subsection \<open>Types\<close>

text \<open>\<open>TimeSeriesPoint\<close>: \<open>x\<close> is a \<open>Date\<close>, \<open>y\<close> a number, \<open>id\<close> optional. The fields
  \<open>seriesId\<close> and \<open>metadata\<close> are never read by the functions below and are left out.\<close>

record TimeSeriesPoint =
  pt_x :: int
  pt_y :: real
  pt_id :: "string option"

datatype OutlierMethod = ZScore | IQR | MAD

record LODConfig =
  targetPoints :: nat
  outlierThreshold :: real
  outlierMethod :: OutlierMethod
  preserveMinMax :: bool
  preserveOutliers :: bool
  maxOutlierPercentage :: real

text \<open>\<open>Partial<LODConfig>\<close>: every field may be absent.\<close>

record PartialLODConfig =
  p_targetPoints :: "nat option"
  p_outlierThreshold :: "real option"
  p_outlierMethod :: "OutlierMethod option"
  p_preserveMinMax :: "bool option"
  p_preserveOutliers :: "bool option"
  p_maxOutlierPercentage :: "real option"

datatype LODLevel = MINIMAL | LOW | MEDIUM | HIGH | FULL

text \<open>The numeric value of the enum \<open>LODLevel\<close>.\<close>

fun lodLevelValue :: "LODLevel \<Rightarrow> nat" where
  "lodLevelValue MINIMAL = 0"
| "lodLevelValue LOW = 1"
| "lodLevelValue MEDIUM = 2"
| "lodLevelValue HIGH = 3"
| "lodLevelValue FULL = 4"

record LODBucket =
  startTime :: int
  endTime :: int
  min_y :: real
  max_y :: real
  avg :: real
  count :: nat
  outliers :: "TimeSeriesPoint list"
  representative :: TimeSeriesPoint

record LODResult =
  buckets :: "LODBucket list"
  totalPoints :: nat
  sampledPoints :: nat
  compressionRatio :: real
  level :: LODLevel
  outlierCount :: nat

definition DEFAULT_LOD_CONFIG :: LODConfig where
  "DEFAULT_LOD_CONFIG =
     \<lparr> targetPoints = 1000, outlierThreshold = 3, outlierMethod = ZScore,
       preserveMinMax = True, preserveOutliers = True, maxOutlierPercentage = 10 \<rparr>"

definition NO_OVERRIDES :: PartialLODConfig where
  "NO_OVERRIDES =
     \<lparr> p_targetPoints = None, p_outlierThreshold = None, p_outlierMethod = None,
       p_preserveMinMax = None, p_preserveOutliers = None, p_maxOutlierPercentage = None \<rparr>"

text \<open>The object spread \<open>{ ...DEFAULT_LOD_CONFIG, ...config, targetPoints }\<close> of \<open>applyLOD\<close>:
  a field present in \<open>config\<close> overrides the default, and \<open>targetPoints\<close> is always the
  argument of the call.\<close>

definition orDefault :: "'a option \<Rightarrow> 'a \<Rightarrow> 'a" where
  "orDefault v d = (case v of None \<Rightarrow> d | Some w \<Rightarrow> w)"

definition fullConfigOf :: "PartialLODConfig option \<Rightarrow> nat \<Rightarrow> LODConfig" where
  "fullConfigOf config target =
     (case config of
        None \<Rightarrow> DEFAULT_LOD_CONFIG \<lparr> targetPoints := target \<rparr>
      | Some c \<Rightarrow>
          \<lparr> targetPoints = target,
            outlierThreshold = orDefault (p_outlierThreshold c) (outlierThreshold DEFAULT_LOD_CONFIG),
            outlierMethod = orDefault (p_outlierMethod c) (outlierMethod DEFAULT_LOD_CONFIG),
            preserveMinMax = orDefault (p_preserveMinMax c) (preserveMinMax DEFAULT_LOD_CONFIG),
            preserveOutliers = orDefault (p_preserveOutliers c) (preserveOutliers DEFAULT_LOD_CONFIG),
            maxOutlierPercentage =
              orDefault (p_maxOutlierPercentage c) (maxOutlierPercentage DEFAULT_LOD_CONFIG) \<rparr>)"

subsection \<open>JavaScript primitives\<close>

text \<open>\<open>Math.min(...vs)\<close> and \<open>Math.max(...vs)\<close>. On no argument JavaScript returns
  \<open>Infinity\<close> and \<open>-Infinity\<close>, which the reals do not have: the model returns 0 there,
  and every call below is on a non-empty list (lemma \<open>bucketPoints_nonempty\<close> for the
  buckets; the slow path of \<open>applyLOD\<close> has at least one point).\<close>

fun mathMin :: "'a::{linorder,zero} list \<Rightarrow> 'a" where
  "mathMin [] = 0"
| "mathMin (v # vs) = foldl min v vs"

fun mathMax :: "'a::{linorder,zero} list \<Rightarrow> 'a" where
  "mathMax [] = 0"
| "mathMax (v # vs) = foldl max v vs"

text \<open>\<open>new Date(v).getTime()\<close> for a finite number \<open>v\<close>: the time value is truncated
  towards zero to a whole number of milliseconds.\<close>

definition dateOf :: "real \<Rightarrow> int" where
  "dateOf v = (if 0 \<le> v then \<lfloor>v\<rfloor> else \<lceil>v\<rceil>)"

text \<open>\<open>xs.slice(0, e)\<close> for an integer \<open>e\<close>: a negative end counts from the end of the
  array.\<close>

definition slice0 :: "'a list \<Rightarrow> int \<Rightarrow> 'a list" where
  "slice0 xs e = (if 0 \<le> e then take (nat e) xs else take (length xs - nat (- e)) xs)"

text \<open>The decimal text of an integer, as a template literal prints it.\<close>

definition digitChar :: "nat \<Rightarrow> char" where
  "digitChar d = ''0123456789'' ! d"

fun showNat :: "nat \<Rightarrow> string" where
  "showNat n = (if n < 10 then [digitChar n] else showNat (n div 10) @ [digitChar (n mod 10)])"

declare showNat.simps [simp del]

definition showInt :: "int \<Rightarrow> string" where
  "showInt i = (if i < 0 then CHR ''-'' # showNat (nat (- i)) else showNat (nat i))"

subsection \<open>Temporal bucketing\<close>

definition intervals :: "int list" where
  "intervals =
     [1, 5, 10, 50, 100, 500,
      1000, 5000, 10000, 30000,
      60000, 300000, 600000,
      3600000, 18000000, 36000000,
      86400000, 604800000]"

text \<open>One iteration of the loop of \<open>calculateBucketSize\<close>; the state is
  \<open>(closest, minDiff)\<close>.\<close>

definition closestStep :: "real \<Rightarrow> int \<times> real \<Rightarrow> int \<Rightarrow> int \<times> real" where
  "closestStep bucketMs st interval =
     (let diff = \<bar>bucketMs - real_of_int interval\<bar>
      in if diff < snd st then (interval, diff) else st)"

definition calculateBucketSize :: "int \<times> int \<Rightarrow> nat \<Rightarrow> int" where
  "calculateBucketSize timeRange target =
     (let duration = snd timeRange - fst timeRange
      in if duration = 0 \<or> target = 0 then 1
         else
           let bucketMs = real_of_int duration / real target;
               closest0 = hd intervals;
               minDiff0 = \<bar>bucketMs - real_of_int closest0\<bar>;
               closest = fst (foldl (closestStep bucketMs) (closest0, minDiff0) intervals)
           in max 1 closest)"

text \<open>A JavaScript \<open>Map<number, TimeSeriesPoint[]>\<close> keeps its keys in insertion order: an
  association list. \<open>mapPush m k v\<close> is
  \<open>if (!m.has(k)) m.set(k, []); m.get(k).push(v)\<close>.\<close>

fun mapPush :: "('k \<times> 'v list) list \<Rightarrow> 'k \<Rightarrow> 'v \<Rightarrow> ('k \<times> 'v list) list" where
  "mapPush [] k v = [(k, [v])]"
| "mapPush ((k', vs) # m) k v =
     (if k' = k then (k', vs @ [v]) # m else (k', vs) # mapPush m k v)"

definition bucketIndexOf :: "int \<Rightarrow> int \<Rightarrow> TimeSeriesPoint \<Rightarrow> int" where
  "bucketIndexOf bucketSize start p =
     \<lfloor>real_of_int (pt_x p - start) / real_of_int bucketSize\<rfloor>"

definition bucketPoints ::
  "TimeSeriesPoint list \<Rightarrow> int \<Rightarrow> int \<times> int \<Rightarrow> (int \<times> TimeSeriesPoint list) list" where
  "bucketPoints points bucketSize timeRange =
     foldl (\<lambda>m p. mapPush m (bucketIndexOf bucketSize (fst timeRange) p) p) [] points"

text \<open>\<open>buckets.get(index)!\<close>: the lookup is made only at keys of the map; the model gives
  the empty list at an absent key.\<close>

definition mapGet :: "('k \<times> 'v list) list \<Rightarrow> 'k \<Rightarrow> 'v list" where
  "mapGet m k = (case map_of m k of None \<Rightarrow> [] | Some vs \<Rightarrow> vs)"

subsection \<open>Outlier detection\<close>

definition detectOutliersZScore :: "TimeSeriesPoint list \<Rightarrow> real \<Rightarrow> TimeSeriesPoint list" where
  "detectOutliersZScore points threshold =
     (if length points < 3 then []
      else
        let vals = map pt_y points;
            mean = foldl (+) 0 vals / real (length vals);
            variance = foldl (\<lambda>acc v. acc + (v - mean) ^ 2) 0 vals / real (length vals);
            std = sqrt variance
        in if std = 0 then []
           else filter (\<lambda>p. \<bar>(pt_y p - mean) / std\<bar> > threshold) points)"

definition detectOutliersIQR :: "TimeSeriesPoint list \<Rightarrow> TimeSeriesPoint list" where
  "detectOutliersIQR points =
     (if length points < 4 then []
      else
        let vals = sort (map pt_y points);
            q1 = vals ! nat \<lfloor>real (length vals) * 0.25\<rfloor>;
            q3 = vals ! nat \<lfloor>real (length vals) * 0.75\<rfloor>;
            iqr = q3 - q1;
            lowerBound = q1 - 1.5 * iqr;
            upperBound = q3 + 1.5 * iqr
        in filter (\<lambda>p. pt_y p < lowerBound \<or> pt_y p > upperBound) points)"

definition detectOutliersMAD :: "TimeSeriesPoint list \<Rightarrow> real \<Rightarrow> TimeSeriesPoint list" where
  "detectOutliersMAD points threshold =
     (if length points < 3 then []
      else
        let vals = sort (map pt_y points);
            median = vals ! nat \<lfloor>real (length vals) / 2\<rfloor>;
            deviations = map (\<lambda>v. \<bar>v - median\<bar>) vals;
            mad = sort deviations ! nat \<lfloor>real (length deviations) / 2\<rfloor>
        in if mad = 0 then []
           else filter (\<lambda>p. \<bar>pt_y p - median\<bar> / mad > threshold) points)"

definition detectOutliers :: "TimeSeriesPoint list \<Rightarrow> LODConfig \<Rightarrow> TimeSeriesPoint list" where
  "detectOutliers points config =
     (if \<not> preserveOutliers config \<or> length points < 3 then []
      else
        (case outlierMethod config of
           ZScore \<Rightarrow> detectOutliersZScore points (outlierThreshold config)
         | IQR \<Rightarrow> detectOutliersIQR points
         | MAD \<Rightarrow> detectOutliersMAD points (outlierThreshold config)))"

text \<open>The cap of \<open>applyLOD\<close>:
  \<open>allOutliers.slice(0, Math.floor(points.length * (maxOutlierPercentage / 100)))\<close>.\<close>

definition maxOutliersOf :: "TimeSeriesPoint list \<Rightarrow> LODConfig \<Rightarrow> int" where
  "maxOutliersOf points config =
     \<lfloor>real (length points) * (maxOutlierPercentage config / 100)\<rfloor>"

definition cappedOutliers :: "TimeSeriesPoint list \<Rightarrow> LODConfig \<Rightarrow> TimeSeriesPoint list" where
  "cappedOutliers points config =
     slice0 (detectOutliers points config) (maxOutliersOf points config)"

subsection \<open>Bucket aggregation\<close>

definition avgPoint :: "real \<Rightarrow> real \<Rightarrow> int \<Rightarrow> TimeSeriesPoint" where
  "avgPoint midTime a bucketIndex =
     \<lparr> pt_x = dateOf midTime, pt_y = a,
       pt_id = Some (''bucket-'' @ showInt bucketIndex @ ''-avg'') \<rparr>"

text \<open>\<open>bucketOutliers.reduce((extreme, current) => ...)\<close> has no initial value and is called
  under the guard \<open>bucketOutliers.length > 0\<close>: the case of the non-empty list.
  \<open>bucketPoints.find(...) || bucketPoints[0]\<close> falls back to the first point; it is
  reached only when \<open>range > 0\<close>, where the bucket has points.\<close>

definition moreExtreme :: "real \<Rightarrow> TimeSeriesPoint \<Rightarrow> TimeSeriesPoint \<Rightarrow> TimeSeriesPoint" where
  "moreExtreme a extreme current =
     (if \<bar>pt_y current - a\<bar> > \<bar>pt_y extreme - a\<bar> then current else extreme)"

definition findOrFirst :: "(TimeSeriesPoint \<Rightarrow> bool) \<Rightarrow> TimeSeriesPoint list \<Rightarrow> TimeSeriesPoint" where
  "findOrFirst P ps = (case find P ps of Some p \<Rightarrow> p | None \<Rightarrow> hd ps)"

definition chooseRepresentative ::
  "TimeSeriesPoint list \<Rightarrow> int \<Rightarrow> int \<Rightarrow> int \<Rightarrow> TimeSeriesPoint list \<Rightarrow> LODConfig
     \<Rightarrow> TimeSeriesPoint" where
  "chooseRepresentative bps bucketIndex bucketSize start outs config =
     (let vals = map pt_y bps;
          mn = mathMin vals;
          mx = mathMax vals;
          a = foldl (+) 0 vals / real (length vals);
          bucketStart = start + bucketIndex * bucketSize;
          bucketEnd = bucketStart + bucketSize;
          midTime = real_of_int bucketStart + real_of_int bucketSize / 2
      in if preserveMinMax config then
           (case filter (\<lambda>q. pt_x q \<ge> bucketStart \<and> pt_x q < bucketEnd) outs of
              ex # rest \<Rightarrow> foldl (moreExtreme a) ex rest
            | [] \<Rightarrow>
                let range = mx - mn
                in if range > 0 \<and> (a - mn) / range > 0.7 then findOrFirst (\<lambda>p. pt_y p = mx) bps
                   else if range > 0 \<and> (mx - a) / range > 0.7 then findOrFirst (\<lambda>p. pt_y p = mn) bps
                   else avgPoint midTime a bucketIndex)
         else avgPoint midTime a bucketIndex)"

definition createBucketSummary ::
  "TimeSeriesPoint list \<Rightarrow> int \<Rightarrow> int \<Rightarrow> int \<Rightarrow> TimeSeriesPoint list \<Rightarrow> LODConfig
     \<Rightarrow> LODBucket" where
  "createBucketSummary bps bucketIndex bucketSize start outs config =
     (let vals = map pt_y bps;
          bucketStart = start + bucketIndex * bucketSize
      in \<lparr> startTime = bucketStart,
           endTime = bucketStart + bucketSize,
           min_y = mathMin vals,
           max_y = mathMax vals,
           avg = foldl (+) 0 vals / real (length vals),
           count = length bps,
           outliers = [],
           representative = chooseRepresentative bps bucketIndex bucketSize start outs config \<rparr>)"

subsection \<open>applyLOD\<close>

definition fullBucket :: "TimeSeriesPoint \<Rightarrow> LODBucket" where
  "fullBucket p =
     \<lparr> startTime = pt_x p, endTime = pt_x p, min_y = pt_y p, max_y = pt_y p, avg = pt_y p,
       count = 1, outliers = [], representative = p \<rparr>"

definition levelOf :: "real \<Rightarrow> LODLevel" where
  "levelOf ratio =
     (if ratio \<ge> 100 then MINIMAL
      else if ratio \<ge> 50 then LOW
      else if ratio \<ge> 10 then MEDIUM
      else if ratio \<ge> 2 then HIGH
      else FULL)"

definition timeRangeOf :: "TimeSeriesPoint list \<Rightarrow> (int \<times> int) option \<Rightarrow> int \<times> int" where
  "timeRangeOf points timeRange =
     (case timeRange of
        Some r \<Rightarrow> r
      | None \<Rightarrow> (let times = map pt_x points in (mathMin times, mathMax times)))"

definition applyLOD ::
  "TimeSeriesPoint list \<Rightarrow> nat \<Rightarrow> (int \<times> int) option \<Rightarrow> PartialLODConfig option \<Rightarrow> LODResult" where
  "applyLOD points target timeRange config =
     (let fullConfig = fullConfigOf config target
      in if length points \<le> target then
           \<lparr> buckets = map fullBucket points,
             totalPoints = length points,
             sampledPoints = length points,
             compressionRatio = 1,
             level = FULL,
             outlierCount = 0 \<rparr>
         else
           let range = timeRangeOf points timeRange;
               bucketSize = calculateBucketSize range target;
               bmap = bucketPoints points bucketSize range;
               capped = cappedOutliers points fullConfig;
               sortedIndices = sort (map fst bmap);
               bucketSummaries =
                 map (\<lambda>index. createBucketSummary (mapGet bmap index) index bucketSize (fst range)
                        capped fullConfig) sortedIndices;
               sampled = length bucketSummaries;
               ratio = real (length points) / real sampled
           in \<lparr> buckets = bucketSummaries,
                totalPoints = length points,
                sampledPoints = sampled,
                compressionRatio = ratio,
                level = levelOf ratio,
                outlierCount = length capped \<rparr>)"

subsection \<open>Example inputs of the LOD module\<close>

text \<open>Seventeen points one millisecond apart: sixteen at \<open>y = 0\<close> and a spike at
  \<open>y = 17\<close>. Their mean is 1 and their standard deviation is 4, so the spike has z-score 4.\<close>

definition flatPoint :: "nat \<Rightarrow> TimeSeriesPoint" where
  "flatPoint i = \<lparr> pt_x = int i, pt_y = 0, pt_id = None \<rparr>"

definition spikePoint :: TimeSeriesPoint where
  "spikePoint = \<lparr> pt_x = 16, pt_y = 17, pt_id = None \<rparr>"

definition spikeSeries :: "TimeSeriesPoint list" where
  "spikeSeries = map flatPoint [0..<16] @ [spikePoint]"

definition mkPoint :: "int \<Rightarrow> real \<Rightarrow> TimeSeriesPoint" where
  "mkPoint t v = \<lparr> pt_x = t, pt_y = v, pt_id = None \<rparr>"





section \<open>Threshold configuration (thresholds.ts)\<close>

datatype RendererTier = SVG | CANVAS | WEBGL

text \<open>\<open>ThresholdConfig\<close>. The type \<open>RendererType\<close> of \<open>forceRenderer\<close> has the same three
  values as the enum \<open>RendererTier\<close> and is modelled by it.\<close>

record ThresholdConfig =
  svgToCanvas :: real
  canvasToWebGL :: real
  pointsPerPixelSVG :: real
  pointsPerPixelCanvas :: real
  pointsPerPixelWebGL :: real
  forceRenderer :: "RendererTier option"
  autoDetect :: bool

text \<open>\<open>Partial<ThresholdConfig>\<close>.\<close>

record PartialThresholdConfig =
  p_svgToCanvas :: "real option"
  p_canvasToWebGL :: "real option"
  p_pointsPerPixelSVG :: "real option"
  p_pointsPerPixelCanvas :: "real option"
  p_pointsPerPixelWebGL :: "real option"
  p_forceRenderer :: "RendererTier option"
  p_autoDetect :: "bool option"

definition DEFAULT_THRESHOLDS :: ThresholdConfig where
  "DEFAULT_THRESHOLDS =
     \<lparr> svgToCanvas = 5000, canvasToWebGL = 50000,
       pointsPerPixelSVG = 0.5, pointsPerPixelCanvas = 5, pointsPerPixelWebGL = 50,
       forceRenderer = None, autoDetect = True \<rparr>"

definition calculatePointDensity :: "nat \<Rightarrow> real \<Rightarrow> real \<Rightarrow> real" where
  "calculatePointDensity pointCount w h =
     (let pixelArea = w * h
      in if pixelArea = 0 then 0 else real pointCount / pixelArea)"

text \<open>\<open>a ?? b\<close> is \<open>orDefault a b\<close>; for the optional \<open>forceRenderer\<close> the default is itself
  \<open>undefined\<close>.\<close>

definition validateThresholds :: "PartialThresholdConfig \<Rightarrow> ThresholdConfig" where
  "validateThresholds config =
     (let base = DEFAULT_THRESHOLDS
      in \<lparr> svgToCanvas = max 100 (orDefault (p_svgToCanvas config) (svgToCanvas base)),
           canvasToWebGL =
             max (orDefault (p_svgToCanvas config) (svgToCanvas base))
                 (orDefault (p_canvasToWebGL config) (canvasToWebGL base)),
           pointsPerPixelSVG =
             max 0.1 (orDefault (p_pointsPerPixelSVG config) (pointsPerPixelSVG base)),
           pointsPerPixelCanvas =
             max 0.1 (orDefault (p_pointsPerPixelCanvas config) (pointsPerPixelCanvas base)),
           pointsPerPixelWebGL =
             max 0.1 (orDefault (p_pointsPerPixelWebGL config) (pointsPerPixelWebGL base)),
           forceRenderer =
             (case p_forceRenderer config of None \<Rightarrow> forceRenderer base | Some t \<Rightarrow> Some t),
           autoDetect = orDefault (p_autoDetect config) (autoDetect base) \<rparr>)"

text \<open>A stored override that sets the two point-count thresholds to 50 and 60.\<close>

definition lowOverrides :: PartialThresholdConfig where
  "lowOverrides =
     \<lparr> p_svgToCanvas = Some 50, p_canvasToWebGL = Some 60,
       p_pointsPerPixelSVG = None, p_pointsPerPixelCanvas = None, p_pointsPerPixelWebGL = None,
       p_forceRenderer = None, p_autoDetect = None \<rparr>"

section \<open>Series data (types.ts)\<close>

text \<open>The \<open>x\<close> of a \<open>DataPoint\<close> is a number or a \<open>Date\<close>. \<open>xNumber\<close> is the number a scale
  receives (\<open>point.x as number\<close>; a \<open>Date\<close> counts as its time value), \<open>xTime\<close> is the time
  value of \<open>p.x instanceof Date ? p.x : new Date(p.x)\<close>. The field \<open>metadata\<close> is opaque and
  left out.\<close>

datatype XValue = NumX real | DateX int

fun xNumber :: "XValue \<Rightarrow> real" where
  "xNumber (NumX v) = v"
| "xNumber (DateX t) = real_of_int t"


record DataPoint =
  dp_x :: XValue
  dp_y :: real
  dp_id :: "string option"

record SeriesData =
  series_id :: string
  series_name :: string
  series_color :: string
  series_data :: "DataPoint list"
  series_visible :: "bool option"

text \<open>The test \<open>!series.visible && series.visible !== undefined\<close> that makes a loop skip a
  series. \<open>truthy\<close> is the truth value JavaScript gives an optional boolean.\<close>

definition truthy :: "bool option \<Rightarrow> bool" where
  "truthy v = (case v of None \<Rightarrow> False | Some b \<Rightarrow> b)"

definition skipSeries :: "SeriesData \<Rightarrow> bool" where
  "skipSeries s = (\<not> truthy (series_visible s) \<and> series_visible s \<noteq> None)"

text \<open>\<open>data.reduce((sum, s) => sum + s.data.length, 0)\<close>.\<close>

definition totalPointsOf :: "SeriesData list \<Rightarrow> nat" where
  "totalPointsOf ds = foldl (\<lambda>sum s. sum + length (series_data s)) 0 ds"

section \<open>Accessibility summary (accessibility-fallbacks.ts)\<close>















subsection \<open>Example datasets\<close>

text \<open>\<open>spikeData m k\<close> has \<open>m * m\<close> points at \<open>y = 0\<close> followed by one point at
  \<open>y = (m * m + 1) * k\<close>: its mean is \<open>k\<close> and its standard deviation is \<open>m * k\<close>.\<close>

definition zeroDataPoint :: "nat \<Rightarrow> DataPoint" where
  "zeroDataPoint i = \<lparr> dp_x = NumX (real i), dp_y = 0, dp_id = None \<rparr>"




section \<open>Detection module (detection.ts)\<close>

text \<open>The fields of \<open>DeviceCapabilities\<close> that \<open>isTierAvailable\<close> reads. The capabilities are
  properties of the device and are a parameter of every function that asks for them.\<close>

record DeviceCapabilities =
  svgSupported :: bool
  canvasSupported :: bool
  webglSupported :: bool

text \<open>\<open>PerformanceSnapshot\<close>. The fields \<open>fps\<close> and \<open>memoryUsedMB\<close> are written and never read
  by the module; they are left out.\<close>

record PerformanceSnapshot =
  ps_timestamp :: real
  ps_frameTime :: real
  ps_droppedFrames :: nat
  ps_tier :: RendererTier

definition MAX_HISTORY :: nat where
  "MAX_HISTORY = 60"

text \<open>The module keeps \<open>performanceHistory\<close> as a global array; here it is passed in and
  returned. The clock reading \<open>performance.now()\<close> is the parameter \<open>now\<close>.\<close>

definition recordPerformance ::
  "PerformanceSnapshot \<Rightarrow> PerformanceSnapshot list \<Rightarrow> PerformanceSnapshot list" where
  "recordPerformance snapshot history =
     (let h = history @ [snapshot]
      in if length h > MAX_HISTORY then tl h else h)"

definition countPerformanceViolations ::
  "real \<Rightarrow> PerformanceSnapshot list \<Rightarrow> real \<Rightarrow> real \<Rightarrow> nat" where
  "countPerformanceViolations now history budgetMs windowMs =
     (let windowStart = now - windowMs
      in length (filter (\<lambda>p. ps_timestamp p \<ge> windowStart \<and> ps_frameTime p > budgetMs) history))"

definition isTierAvailable :: "DeviceCapabilities \<Rightarrow> RendererTier \<Rightarrow> bool" where
  "isTierAvailable caps t =
     (case t of SVG \<Rightarrow> svgSupported caps
              | CANVAS \<Rightarrow> canvasSupported caps
              | WEBGL \<Rightarrow> webglSupported caps)"

text \<open>The array \<open>[WEBGL, CANVAS, SVG]\<close> of \<open>shouldDegradeTier\<close> and \<open>getFallbackTier\<close>, and
  \<open>tiers.indexOf\<close> on it.\<close>

definition tiers :: "RendererTier list" where
  "tiers = [WEBGL, CANVAS, SVG]"

fun tierIndex :: "RendererTier \<Rightarrow> nat" where
  "tierIndex WEBGL = 0"
| "tierIndex CANVAS = 1"
| "tierIndex SVG = 2"

definition shouldDegradeTier ::
  "DeviceCapabilities \<Rightarrow> real \<Rightarrow> PerformanceSnapshot list \<Rightarrow> RendererTier \<Rightarrow> real \<Rightarrow> real
     \<Rightarrow> real \<Rightarrow> RendererTier option" where
  "shouldDegradeTier caps now history cur budgetMs violationThreshold windowMs =
     (let violations = countPerformanceViolations now history budgetMs windowMs
      in if real violations \<ge> violationThreshold then
           (let currentIndex = tierIndex cur
            in if currentIndex < length tiers - 1 then
                 (let nextTier = tiers ! (currentIndex + 1)
                  in if isTierAvailable caps nextTier then Some nextTier else None)
               else None)
         else None)"

text \<open>\<open>getFallbackTier\<close>: the first available tier from the preferred one downwards, and
  \<open>SVG\<close> when none is.\<close>

definition getFallbackTier :: "DeviceCapabilities \<Rightarrow> RendererTier \<Rightarrow> RendererTier" where
  "getFallbackTier caps preferred =
     (case find (isTierAvailable caps) (drop (tierIndex preferred) tiers) of
        Some t \<Rightarrow> t
      | None \<Rightarrow> SVG)"

text \<open>The fields of \<open>DensityMetrics\<close> that \<open>detectOptimalTier\<close> reads.\<close>

record DensityMetrics =
  dm_totalPoints :: nat
  dm_pointsPerPixel :: real

definition calculateDensityMetrics :: "SeriesData list \<Rightarrow> real \<Rightarrow> real \<Rightarrow> DensityMetrics" where
  "calculateDensityMetrics ds w h =
     (let total = foldl (\<lambda>n s. n + length (series_data s)) 0 ds
      in \<lparr> dm_totalPoints = total, dm_pointsPerPixel = calculatePointDensity total w h \<rparr>)"

text \<open>\<open>detectOptimalTier\<close> with the thresholds given, as the engine calls it.\<close>

definition detectOptimalTier :: "DensityMetrics \<Rightarrow> ThresholdConfig \<Rightarrow> RendererTier" where
  "detectOptimalTier metrics config =
     (case forceRenderer config of
        Some t \<Rightarrow> t
      | None \<Rightarrow>
          if real (dm_totalPoints metrics) \<ge> canvasToWebGL config then WEBGL
          else if real (dm_totalPoints metrics) \<ge> svgToCanvas config then CANVAS
          else if dm_pointsPerPixel metrics \<ge> pointsPerPixelWebGL config then WEBGL
          else if dm_pointsPerPixel metrics \<ge> pointsPerPixelCanvas config then CANVAS
          else SVG)"

datatype SwitchReason = Density | Performance | Manual | Fallback

text \<open>The fields of \<open>TierRecommendation\<close> that the engine reads.\<close>

record TierRecommendation =
  recommended :: RendererTier
  rec_reason :: SwitchReason

definition getTierRecommendation ::
  "DeviceCapabilities \<Rightarrow> real \<Rightarrow> PerformanceSnapshot list \<Rightarrow> SeriesData list \<Rightarrow> real \<Rightarrow> real
     \<Rightarrow> ThresholdConfig \<Rightarrow> TierRecommendation" where
  "getTierRecommendation caps now history ds w h config =
     (let metrics = calculateDensityMetrics ds w h;
          optimal = detectOptimalTier metrics config
      in if \<not> isTierAvailable caps optimal then
           \<lparr> recommended = getFallbackTier caps optimal, rec_reason = Fallback \<rparr>
         else
           (case shouldDegradeTier caps now history optimal (1000 / 60) 10 1000 of
              Some degraded \<Rightarrow>
                if degraded \<noteq> optimal
                then \<lparr> recommended = degraded, rec_reason = Performance \<rparr>
                else \<lparr> recommended = optimal, rec_reason = Density \<rparr>
            | None \<Rightarrow> \<lparr> recommended = optimal, rec_reason = Density \<rparr>))"

section \<open>Hybrid engine (engine.ts)\<close>

text \<open>The fields of \<open>PerformanceBudgetConfig\<close> and of \<open>HybridRendererConfig\<close> that the engine
  reads in the functions below.\<close>

record PerformanceBudgetConfig =
  targetFrameTime :: real
  maxFrameTime :: real
  autoDegrade :: bool
  degradeFrameThreshold :: real

record HybridRendererConfig =
  thresholds :: ThresholdConfig
  performanceBudgets :: PerformanceBudgetConfig

definition DEFAULT_CONFIG :: HybridRendererConfig where
  "DEFAULT_CONFIG =
     \<lparr> thresholds = DEFAULT_THRESHOLDS,
       performanceBudgets =
         \<lparr> targetFrameTime = 16.67, maxFrameTime = 33.33, autoDegrade = True,
           degradeFrameThreshold = 10 \<rparr> \<rparr>"

record FrameMetrics =
  fm_timestamp :: real
  fm_frameTime :: real
  fm_renderTime :: real
  fm_pointCount :: nat
  fm_tier :: RendererTier
  fm_dropped :: bool

record TierSwitchEvent =
  ev_from :: RendererTier
  ev_to :: RendererTier
  ev_reason :: SwitchReason
  ev_timestamp :: real
  ev_density :: nat
  ev_frameTime :: real

text \<open>An \<open>EngineEvent\<close> with its payload and its timestamp.\<close>

datatype EngineEvent =
  TierSwitchEv TierSwitchEvent real
| PerformanceViolationEv FrameMetrics real

text \<open>The state of a \<open>HybridEngine\<close>: its private fields, the fields of \<open>EngineState\<close> that
  the engine writes, the renderers by the tier they are registered under (\<open>currentRenderer\<close>
  is the tier key of the current one), the events emitted so far in order, and the
  \<open>performanceHistory\<close> of the detection module.\<close>

record Engine =
  config :: HybridRendererConfig
  currentTier :: RendererTier
  dataDensity :: nat
  performanceViolations :: nat
  renderers :: "RendererTier set"
  currentRenderer :: "RendererTier option"
  frameCount :: nat
  droppedFrames :: nat
  isDestroyed :: bool
  frameMetrics :: "FrameMetrics list"
  emitted :: "EngineEvent list"
  performanceHistory :: "PerformanceSnapshot list"

definition maxFrameMetrics :: nat where
  "maxFrameMetrics = 60"

text \<open>\<open>new HybridEngine(config)\<close>.\<close>

definition newEngine :: "HybridRendererConfig \<Rightarrow> Engine" where
  "newEngine c =
     \<lparr> config = c, currentTier = SVG, dataDensity = 0, performanceViolations = 0,
       renderers = {}, currentRenderer = None, frameCount = 0, droppedFrames = 0,
       isDestroyed = False, frameMetrics = [], emitted = [], performanceHistory = [] \<rparr>"

definition registerRenderer :: "RendererTier \<Rightarrow> Engine \<Rightarrow> Engine" where
  "registerRenderer t e =
     e \<lparr> renderers := insert t (renderers e),
         currentRenderer :=
           (if currentRenderer e = None \<and> t = currentTier e then Some t else currentRenderer e) \<rparr>"

definition getAverageFrameTime :: "real \<Rightarrow> real \<Rightarrow> Engine \<Rightarrow> real" where
  "getAverageFrameTime now windowMs e =
     (let windowStart = now - windowMs;
          recent = filter (\<lambda>m. fm_timestamp m \<ge> windowStart) (frameMetrics e)
      in if recent = [] then 0
         else foldl (\<lambda>acc m. acc + fm_frameTime m) 0 recent / real (length recent))"

definition switchTier ::
  "real \<Rightarrow> RendererTier \<Rightarrow> SwitchReason \<Rightarrow> Engine \<Rightarrow> TierSwitchEvent option \<times> Engine" where
  "switchTier now newTier reason e =
     (if newTier = currentTier e then (None, e)
      else if newTier \<notin> renderers e then (None, e)
      else
        let event = \<lparr> ev_from = currentTier e, ev_to = newTier, ev_reason = reason,
                      ev_timestamp = now, ev_density = dataDensity e,
                      ev_frameTime = getAverageFrameTime now 1000 e \<rparr>
        in (Some event,
            e \<lparr> currentTier := newTier, currentRenderer := Some newTier,
                emitted := emitted e @ [TierSwitchEv event now] \<rparr>))"

definition switchToFallbackTier :: "DeviceCapabilities \<Rightarrow> real \<Rightarrow> Engine \<Rightarrow> Engine" where
  "switchToFallbackTier caps now e =
     snd (switchTier now (getFallbackTier caps (currentTier e)) Fallback e)"

definition forceSwitchTier ::
  "DeviceCapabilities \<Rightarrow> real \<Rightarrow> RendererTier \<Rightarrow> Engine \<Rightarrow> TierSwitchEvent option \<times> Engine" where
  "forceSwitchTier caps now t e =
     (if \<not> isTierAvailable caps t then switchTier now (getFallbackTier caps t) Fallback e
      else switchTier now t Manual e)"

text \<open>\<open>evaluateTierChange(data?, width?, height?)\<close>. The test \<open>data && width && height\<close>
  holds when the three arguments are given and the width and the height are not 0.
  \<open>degradeCheck\<close> is the last part of the function, the check for performance-based
  degradation.\<close>

definition degradeCheck ::
  "DeviceCapabilities \<Rightarrow> real \<Rightarrow> Engine \<Rightarrow> TierSwitchEvent option \<times> Engine" where
  "degradeCheck caps now e =
     (if autoDegrade (performanceBudgets (config e)) then
        (case shouldDegradeTier caps now (performanceHistory e) (currentTier e)
                (targetFrameTime (performanceBudgets (config e)))
                (degradeFrameThreshold (performanceBudgets (config e))) 1000 of
           Some degraded \<Rightarrow> switchTier now degraded Performance e
         | None \<Rightarrow> (None, e))
      else (None, e))"

definition evaluateTierChange ::
  "DeviceCapabilities \<Rightarrow> real \<Rightarrow> SeriesData list option \<Rightarrow> real option \<Rightarrow> real option \<Rightarrow> Engine
     \<Rightarrow> TierSwitchEvent option \<times> Engine" where
  "evaluateTierChange caps now dataArg widthArg heightArg e =
     (case forceRenderer (thresholds (config e)) of
        Some forcedTier \<Rightarrow>
          if forcedTier \<noteq> currentTier e \<and> isTierAvailable caps forcedTier
          then switchTier now forcedTier Manual e
          else (None, e)
      | None \<Rightarrow>
          (case (dataArg, widthArg, heightArg) of
             (Some ds, Some w, Some h) \<Rightarrow>
               if w \<noteq> 0 \<and> h \<noteq> 0 then
                 (let recommendation =
                        getTierRecommendation caps now (performanceHistory e) ds w h
                          (thresholds (config e))
                  in if recommended recommendation \<noteq> currentTier e
                     then switchTier now (recommended recommendation)
                            (rec_reason recommendation) e
                     else degradeCheck caps now e)
               else degradeCheck caps now e
           | _ \<Rightarrow> degradeCheck caps now e))"

definition shouldReevaluateTier :: "SeriesData list \<Rightarrow> Engine \<Rightarrow> bool \<times> Engine" where
  "shouldReevaluateTier ds e =
     (let e1 = e \<lparr> frameCount := frameCount e + 1 \<rparr>
      in if frameCount e1 mod 30 = 0 then
           (let total = totalPointsOf ds
            in (\<bar>int total - int (dataDensity e1)\<bar> > 1000, e1))
         else (False, e1))"

definition recordFrameMetrics :: "real \<Rightarrow> real \<Rightarrow> SeriesData list \<Rightarrow> Engine \<Rightarrow> Engine" where
  "recordFrameMetrics now frameTime ds e =
     (let total = totalPointsOf ds;
          isDropped = frameTime > maxFrameTime (performanceBudgets (config e));
          dropCount = (if isDropped then droppedFrames e + 1 else droppedFrames e);
          metric = \<lparr> fm_timestamp = now, fm_frameTime = frameTime, fm_renderTime = frameTime,
                     fm_pointCount = total, fm_tier = currentTier e, fm_dropped = isDropped \<rparr>;
          pushed = frameMetrics e @ [metric];
          kept = (if length pushed > maxFrameMetrics then tl pushed else pushed);
          history = recordPerformance
                      \<lparr> ps_timestamp = now, ps_frameTime = frameTime,
                        ps_droppedFrames = dropCount, ps_tier = currentTier e \<rparr>
                      (performanceHistory e);
          e1 = e \<lparr> droppedFrames := dropCount, frameMetrics := kept, dataDensity := total,
                   performanceHistory := history \<rparr>
      in if frameTime > maxFrameTime (performanceBudgets (config e)) then
           (let e2 = e1 \<lparr> performanceViolations := performanceViolations e1 + 1 \<rparr>
            in if real (performanceViolations e2)
                    \<ge> degradeFrameThreshold (performanceBudgets (config e))
               then e2 \<lparr> emitted := emitted e2 @ [PerformanceViolationEv metric now] \<rparr>
               else e2)
         else e1)"

text \<open>\<open>HybridEngine.render\<close>. \<open>tStart\<close> and \<open>tEnd\<close> are the clock readings at the start and at
  the end of the frame; the frame time is their difference. Drawing is the renderer's
  work and leaves the engine's state alone. Without a renderer the engine logs an error
  and records nothing.\<close>

definition render ::
  "DeviceCapabilities \<Rightarrow> real \<Rightarrow> real \<Rightarrow> SeriesData list \<Rightarrow> real \<Rightarrow> real \<Rightarrow> Engine \<Rightarrow> Engine" where
  "render caps tStart tEnd ds w h e =
     (if isDestroyed e then e
      else
        let (reevaluate, e1) = shouldReevaluateTier ds e;
            e2 = (if reevaluate
                  then snd (evaluateTierChange caps tStart (Some ds) (Some w) (Some h) e1)
                  else e1);
            e3 = (if currentRenderer e2 = None then switchToFallbackTier caps tStart e2 else e2)
        in if currentRenderer e3 = None then e3
           else recordFrameMetrics tEnd (tEnd - tStart) ds e3)"

subsection \<open>Example runs of the engine\<close>

definition allSupported :: DeviceCapabilities where
  "allSupported = \<lparr> svgSupported = True, canvasSupported = True, webglSupported = True \<rparr>"

text \<open>An engine with the default configuration and the three renderers registered, switched
  to WebGL at time 0.\<close>

definition webglEngine :: Engine where
  "webglEngine =
     snd (forceSwitchTier allSupported 0 WEBGL
            (registerRenderer WEBGL (registerRenderer CANVAS (registerRenderer SVG
               (newEngine DEFAULT_CONFIG)))))"

text \<open>A dataset of one series with \<open>n\<close> points at \<open>y = 0\<close>.\<close>

definition flatSeries :: "nat \<Rightarrow> SeriesData" where
  "flatSeries n =
     \<lparr> series_id = ''a'', series_name = ''A'', series_color = ''#000000'',
       series_data = map zeroDataPoint [0..<n], series_visible = None \<rparr>"

text \<open>\<open>slowFrames d n e\<close>: \<open>n\<close> consecutive calls of \<open>render\<close> on a 800 by 600 chart of 100
  points, each frame taking \<open>d\<close> milliseconds, the first starting when the last frame
  recorded so far ended.\<close>

fun slowFrames :: "real \<Rightarrow> nat \<Rightarrow> real \<Rightarrow> Engine \<Rightarrow> Engine" where
  "slowFrames d 0 t e = e"
| "slowFrames d (Suc n) t e =
     slowFrames d n (t + d) (render allSupported t (t + d) [flatSeries 100] 800 600 e)"

text \<open>The same frames recorded directly with \<open>recordFrameMetrics\<close>.\<close>

fun recordFrames :: "real \<Rightarrow> nat \<Rightarrow> real \<Rightarrow> Engine \<Rightarrow> Engine" where
  "recordFrames d 0 t e = e"
| "recordFrames d (Suc n) t e =
     recordFrames d n (t + d) (recordFrameMetrics (t + d) d [flatSeries 100] e)"

text \<open>A sequence of recordings: each is the clock reading, the frame time and the data of
  one call of \<open>recordFrameMetrics\<close>.\<close>

definition recordAll :: "(real \<times> real \<times> SeriesData list) list \<Rightarrow> Engine \<Rightarrow> Engine" where
  "recordAll recs e = foldl (\<lambda>st (now, ft, ds). recordFrameMetrics now ft ds st) e recs"

text \<open>The metric that one recording appends, in an engine with maximal frame time \<open>mx\<close> and
  current tier \<open>t\<close>.\<close>

definition metricOf :: "real \<Rightarrow> RendererTier \<Rightarrow> real \<times> real \<times> SeriesData list \<Rightarrow> FrameMetrics" where
  "metricOf mx t r =
     (case r of (now, ft, ds) \<Rightarrow>
        \<lparr> fm_timestamp = now, fm_frameTime = ft, fm_renderTime = ft,
          fm_pointCount = totalPointsOf ds, fm_tier = t, fm_dropped = (ft > mx) \<rparr>)"

section \<open>Renderers (renderer-svg.ts, renderer-canvas.ts, renderer-webgl.ts)\<close>

record Margin =
  m_top :: real
  m_right :: real
  m_bottom :: real
  m_left :: real

text \<open>\<open>RenderContext\<close>. The scales are the injected mappings from data to pixels.\<close>

record RenderContext =
  ctx_width :: real
  ctx_height :: real
  ctx_margin :: Margin
  xScale :: "real \<Rightarrow> real"
  yScale :: "real \<Rightarrow> real"
  pixelRatio :: real

text \<open>\<open>HitTestResult\<close>. The hit tests always set \<open>point\<close>; the Canvas renderer may leave
  \<open>series\<close> undefined.\<close>

record HitTestResult =
  hit_point :: DataPoint
  hit_series :: "string option"
  hit_distance :: real
  hit_x :: real
  hit_y :: real

datatype RendererError = NotInitialized

text \<open>The loop state of a hit test: \<open>closest\<close> and \<open>minDistance\<close>, where \<open>None\<close> for the
  distance is the initial \<open>Infinity\<close>.\<close>

type_synonym HitAcc = "HitTestResult option \<times> real option"

definition belowMin :: "real \<Rightarrow> real option \<Rightarrow> bool" where
  "belowMin d m = (case m of None \<Rightarrow> True | Some w \<Rightarrow> d < w)"

subsection \<open>SVG renderer\<close>

text \<open>The fields of \<open>SVGRenderer\<close> that rendering and the queries read; \<open>svg_ready\<close> says that
  \<open>svg\<close> and \<open>mainGroup\<close> are set, which \<open>initialize\<close> does.\<close>

record SVGRenderer =
  svg_ready :: bool
  svg_currentData :: "SeriesData list"
  svg_currentContext :: "RenderContext option"

definition svgRender :: "SeriesData list \<Rightarrow> RenderContext \<Rightarrow> SVGRenderer \<Rightarrow> RendererError + SVGRenderer" where
  "svgRender ds ctx r =
     (if \<not> svg_ready r then Inl NotInitialized
      else Inr (r \<lparr> svg_currentData := ds, svg_currentContext := Some ctx \<rparr>))"

definition svgPointStep ::
  "RenderContext \<Rightarrow> real \<Rightarrow> real \<Rightarrow> real \<Rightarrow> SeriesData \<Rightarrow> HitAcc \<Rightarrow> DataPoint \<Rightarrow> HitAcc" where
  "svgPointStep ctx dataX dataY radius series acc p =
     (let px = xScale ctx (xNumber (dp_x p));
          py = yScale ctx (dp_y p);
          dx = px - dataX;
          dy = py - dataY;
          distance = sqrt (dx * dx + dy * dy)
      in if distance < radius \<and> belowMin distance (snd acc)
         then (Some \<lparr> hit_point = p, hit_series = Some (series_id series),
                      hit_distance = distance, hit_x = px, hit_y = py \<rparr>,
               Some distance)
         else acc)"

definition svgHitTest :: "SVGRenderer \<Rightarrow> real \<Rightarrow> real \<Rightarrow> real \<Rightarrow> HitTestResult option" where
  "svgHitTest r x y radius =
     (case svg_currentContext r of
        None \<Rightarrow> None
      | Some ctx \<Rightarrow>
          if svg_currentData r = [] then None
          else
            let dataX = x - m_left (ctx_margin ctx);
                dataY = y - m_top (ctx_margin ctx)
            in fst (foldl (\<lambda>acc series.
                             if skipSeries series then acc
                             else foldl (svgPointStep ctx dataX dataY radius series) acc
                                    (series_data series))
                      (None, None) (svg_currentData r)))"

definition svgGetPointsInRegion ::
  "SVGRenderer \<Rightarrow> real \<Rightarrow> real \<Rightarrow> real \<Rightarrow> real \<Rightarrow> DataPoint list" where
  "svgGetPointsInRegion r x1 y1 x2 y2 =
     (case svg_currentContext r of
        None \<Rightarrow> []
      | Some ctx \<Rightarrow>
          let minX = min x1 x2 - m_left (ctx_margin ctx);
              maxX = max x1 x2 - m_left (ctx_margin ctx);
              minY = min y1 y2 - m_top (ctx_margin ctx);
              maxY = max y1 y2 - m_top (ctx_margin ctx)
          in foldl (\<lambda>points series.
                      if skipSeries series then points
                      else foldl (\<lambda>ps p.
                                    let px = xScale ctx (xNumber (dp_x p));
                                        py = yScale ctx (dp_y p)
                                    in if px \<ge> minX \<and> px \<le> maxX \<and> py \<ge> minY \<and> py \<le> maxY
                                       then ps @ [p] else ps)
                             points (series_data series))
               [] (svg_currentData r))"

subsection \<open>WebGL renderer\<close>

text \<open>\<open>gl_ready\<close> says that \<open>renderer\<close>, \<open>scene\<close> and \<open>camera\<close> are set, which \<open>initialize\<close>
  does. \<open>height || 0\<close> is the height itself for a number.\<close>

record WebGLRenderer =
  gl_ready :: bool
  gl_currentData :: "SeriesData list"
  gl_currentContext :: "RenderContext option"

definition webglRender ::
  "SeriesData list \<Rightarrow> RenderContext \<Rightarrow> WebGLRenderer \<Rightarrow> RendererError + WebGLRenderer" where
  "webglRender ds ctx r =
     (if \<not> gl_ready r then Inl NotInitialized
      else Inr (r \<lparr> gl_currentData := ds, gl_currentContext := Some ctx \<rparr>))"

definition orZero :: "real \<Rightarrow> real" where
  "orZero h = (if h = 0 then 0 else h)"

definition webglPointStep ::
  "RenderContext \<Rightarrow> real \<Rightarrow> real \<Rightarrow> real \<Rightarrow> SeriesData \<Rightarrow> HitAcc \<Rightarrow> DataPoint \<Rightarrow> HitAcc" where
  "webglPointStep ctx worldX worldY radius series acc p =
     (let px = xScale ctx (xNumber (dp_x p));
          py = orZero (ctx_height ctx) - yScale ctx (dp_y p);
          dx = px - worldX;
          dy = py - worldY;
          distance = sqrt (dx * dx + dy * dy)
      in if distance < radius \<and> belowMin distance (snd acc)
         then (Some \<lparr> hit_point = p, hit_series = Some (series_id series),
                      hit_distance = distance, hit_x = px, hit_y = py \<rparr>,
               Some distance)
         else acc)"

definition webglHitTest :: "WebGLRenderer \<Rightarrow> real \<Rightarrow> real \<Rightarrow> real \<Rightarrow> HitTestResult option" where
  "webglHitTest r x y radius =
     (case gl_currentContext r of
        None \<Rightarrow> None
      | Some ctx \<Rightarrow>
          if \<not> gl_ready r \<or> gl_currentData r = [] then None
          else
            let worldX = x - m_left (ctx_margin ctx);
                worldY = orZero (ctx_height ctx) - (y - m_top (ctx_margin ctx))
            in fst (foldl (\<lambda>acc series.
                             if skipSeries series then acc
                             else foldl (webglPointStep ctx worldX worldY radius series) acc
                                    (series_data series))
                      (None, None) (gl_currentData r)))"

definition webglGetPointsInRegion ::
  "WebGLRenderer \<Rightarrow> real \<Rightarrow> real \<Rightarrow> real \<Rightarrow> real \<Rightarrow> DataPoint list" where
  "webglGetPointsInRegion r x1 y1 x2 y2 =
     (case gl_currentContext r of
        None \<Rightarrow> []
      | Some ctx \<Rightarrow>
          let minX = min x1 x2 - m_left (ctx_margin ctx);
              maxX = max x1 x2 - m_left (ctx_margin ctx);
              minY = min y1 y2 - m_top (ctx_margin ctx);
              maxY = max y1 y2 - m_top (ctx_margin ctx)
          in foldl (\<lambda>points series.
                      if skipSeries series then points
                      else foldl (\<lambda>ps p.
                                    let px = xScale ctx (xNumber (dp_x p));
                                        py = orZero (ctx_height ctx) - yScale ctx (dp_y p)
                                               - m_top (ctx_margin ctx)
                                    in if px \<ge> minX \<and> px \<le> maxX \<and> py \<ge> minY \<and> py \<le> maxY
                                       then ps @ [p] else ps)
                             points (series_data series))
               [] (gl_currentData r))"

subsection \<open>Canvas renderer and its spatial index\<close>

text \<open>The spatial index is a \<open>Map\<close> from the key \<open>`${cellX},${cellY}`\<close> to the points of the
  cell. The text of a pair of integers determines the pair, so the key is modelled by
  the pair; the map keeps insertion order and is an association list, with \<open>mapPush\<close> and
  \<open>mapGet\<close> as for the LOD buckets. \<open>hitTestRadius\<close> is a private field that is never
  assigned after its initial value 10.\<close>

type_synonym SpatialIndex = "((int \<times> int) \<times> DataPoint list) list"

record CanvasRenderer =
  cv_ready :: bool
  cv_currentData :: "SeriesData list"
  cv_currentContext :: "RenderContext option"
  spatialIndex :: SpatialIndex

definition hitTestRadius :: real where
  "hitTestRadius = 10"

definition cellKey :: "real \<Rightarrow> real \<Rightarrow> real \<Rightarrow> int \<times> int" where
  "cellKey cellSize px py = (\<lfloor>px / cellSize\<rfloor>, \<lfloor>py / cellSize\<rfloor>)"

definition buildSpatialIndex ::
  "SeriesData list \<Rightarrow> (real \<Rightarrow> real) \<Rightarrow> (real \<Rightarrow> real) \<Rightarrow> SpatialIndex" where
  "buildSpatialIndex ds xs ys =
     (let cellSize = hitTestRadius * 2
      in foldl (\<lambda>idx series.
                  if skipSeries series then idx
                  else foldl (\<lambda>m p. mapPush m
                                        (cellKey cellSize (xs (xNumber (dp_x p))) (ys (dp_y p))) p)
                         idx (series_data series))
           [] ds)"

definition canvasRender ::
  "SeriesData list \<Rightarrow> RenderContext \<Rightarrow> CanvasRenderer \<Rightarrow> RendererError + CanvasRenderer" where
  "canvasRender ds ctx r =
     (if \<not> cv_ready r then Inl NotInitialized
      else Inr (r \<lparr> cv_currentData := ds, cv_currentContext := Some ctx,
                    spatialIndex := buildSpatialIndex ds (xScale ctx) (yScale ctx) \<rparr>))"

text \<open>The series that the Canvas hit test reports:
  \<open>currentData.find(s => s.data.some(p => p.x === point.x && p.y === point.y))?.id\<close>.\<close>

definition seriesOfPoint :: "SeriesData list \<Rightarrow> DataPoint \<Rightarrow> string option" where
  "seriesOfPoint ds point =
     map_option series_id
       (find (\<lambda>s. list_ex (\<lambda>p. dp_x p = dp_x point \<and> dp_y p = dp_y point) (series_data s)) ds)"

definition canvasPointStep ::
  "CanvasRenderer \<Rightarrow> RenderContext \<Rightarrow> real \<Rightarrow> real \<Rightarrow> real \<Rightarrow> HitAcc \<Rightarrow> DataPoint \<Rightarrow> HitAcc" where
  "canvasPointStep r ctx dataX dataY radius acc p =
     (let px = xScale ctx (xNumber (dp_x p));
          py = yScale ctx (dp_y p);
          distance = sqrt ((px - dataX) ^ 2 + (py - dataY) ^ 2)
      in if distance < radius \<and> belowMin distance (snd acc)
         then (Some \<lparr> hit_point = p, hit_series = seriesOfPoint (cv_currentData r) p,
                      hit_distance = distance, hit_x = px, hit_y = py \<rparr>,
               Some distance)
         else acc)"

text \<open>The offsets \<open>-1, 0, 1\<close> of the two nested \<open>for\<close> loops.\<close>

definition cellOffsets :: "int list" where
  "cellOffsets = [-1, 0, 1]"

definition canvasHitTest :: "CanvasRenderer \<Rightarrow> real \<Rightarrow> real \<Rightarrow> real \<Rightarrow> HitTestResult option" where
  "canvasHitTest r x y radius =
     (case cv_currentContext r of
        None \<Rightarrow> None
      | Some ctx \<Rightarrow>
          if cv_currentData r = [] then None
          else
            let dataX = x - m_left (ctx_margin ctx);
                dataY = y - m_top (ctx_margin ctx);
                cellSize = hitTestRadius * 2;
                cellX = \<lfloor>dataX / cellSize\<rfloor>;
                cellY = \<lfloor>dataY / cellSize\<rfloor>
            in fst (foldl (\<lambda>acc dx.
                             foldl (\<lambda>acc2 dy.
                                      foldl (canvasPointStep r ctx dataX dataY radius) acc2
                                        (mapGet (spatialIndex r) (cellX + dx, cellY + dy)))
                               acc cellOffsets)
                      (None, None) cellOffsets))"

definition canvasGetPointsInRegion ::
  "CanvasRenderer \<Rightarrow> real \<Rightarrow> real \<Rightarrow> real \<Rightarrow> real \<Rightarrow> DataPoint list" where
  "canvasGetPointsInRegion r x1 y1 x2 y2 =
     (case cv_currentContext r of
        None \<Rightarrow> []
      | Some ctx \<Rightarrow>
          let minX = min x1 x2 - m_left (ctx_margin ctx);
              maxX = max x1 x2 - m_left (ctx_margin ctx);
              minY = min y1 y2 - m_top (ctx_margin ctx);
              maxY = max y1 y2 - m_top (ctx_margin ctx);
              cellSize = hitTestRadius * 2;
              startCellX = \<lfloor>minX / cellSize\<rfloor>;
              endCellX = \<lfloor>maxX / cellSize\<rfloor>;
              startCellY = \<lfloor>minY / cellSize\<rfloor>;
              endCellY = \<lfloor>maxY / cellSize\<rfloor>
          in foldl (\<lambda>points cx.
                      foldl (\<lambda>points2 cy.
                               foldl (\<lambda>ps p.
                                        let px = xScale ctx (xNumber (dp_x p));
                                            py = yScale ctx (dp_y p)
                                        in if px \<ge> minX \<and> px \<le> maxX \<and> py \<ge> minY \<and> py \<le> maxY
                                           then ps @ [p] else ps)
                                 points2 (mapGet (spatialIndex r) (cx, cy)))
                        points [startCellY..endCellY])
               [] [startCellX..endCellX])"

subsection \<open>Example charts\<close>

text \<open>A 400 by 300 chart without margins whose scales are the identity: a point is drawn at
  its own coordinates.\<close>

definition plainContext :: RenderContext where
  "plainContext =
     \<lparr> ctx_width = 400, ctx_height = 300,
       ctx_margin = \<lparr> m_top = 0, m_right = 0, m_bottom = 0, m_left = 0 \<rparr>,
       xScale = (\<lambda>v. v), yScale = (\<lambda>v. v), pixelRatio = 1 \<rparr>"

definition dataPointAt :: "real \<Rightarrow> real \<Rightarrow> DataPoint" where
  "dataPointAt u v = \<lparr> dp_x = NumX u, dp_y = v, dp_id = None \<rparr>"

definition seriesOf :: "string \<Rightarrow> bool option \<Rightarrow> DataPoint list \<Rightarrow> SeriesData" where
  "seriesOf i vis ps =
     \<lparr> series_id = i, series_name = i, series_color = ''#000000'', series_data = ps,
       series_visible = vis \<rparr>"

text \<open>One point at \<open>(100, 100)\<close>.\<close>

definition onePointChart :: "SeriesData list" where
  "onePointChart = [seriesOf ''a'' None [dataPointAt 100 100]]"

text \<open>Two points, \<open>(28, 20)\<close> and \<open>(20, 12)\<close>, both 8 pixels away from \<open>(20, 20)\<close>.\<close>

definition tieChart :: "SeriesData list" where
  "tieChart = [seriesOf ''a'' None [dataPointAt 28 20], seriesOf ''b'' None [dataPointAt 20 12]]"

text \<open>A chart with a hidden series, a series whose \<open>visible\<close> is undefined and a series
  marked visible.\<close>

definition mixedChart :: "SeriesData list" where
  "mixedChart =
     [seriesOf ''h'' (Some False) [dataPointAt 10 10],
      seriesOf ''u'' None [dataPointAt 50 50],
      seriesOf ''v'' (Some True) [dataPointAt 90 90]]"

definition readySVG :: SVGRenderer where
  "readySVG = \<lparr> svg_ready = True, svg_currentData = [], svg_currentContext = None \<rparr>"

definition readyWebGL :: WebGLRenderer where
  "readyWebGL = \<lparr> gl_ready = True, gl_currentData = [], gl_currentContext = None \<rparr>"

definition readyCanvas :: CanvasRenderer where
  "readyCanvas =
     \<lparr> cv_ready = True, cv_currentData = [], cv_currentContext = None, spatialIndex = [] \<rparr>"

subsection \<open>The anomalies of a series, in the words of the specification\<close>





section \<open>Properties of the LOD module\<close>

subsection \<open>Folds\<close>





lemma foldl_add_sum: "foldl (+) (a::real) vs = a + sum_list vs"
  by (induction vs arbitrary: a) simp_all

lemma foldl_sq_sum:
  "foldl (\<lambda>acc v. acc + (v - m) ^ 2) (a::real) vs = a + sum_list (map (\<lambda>v. (v - m) ^ 2) vs)"
  by (induction vs arbitrary: a) simp_all




subsection \<open>Buckets are never empty\<close>



lemma mapPush_values_nonempty:
  "[] \<notin> snd ` set m \<Longrightarrow> [] \<notin> snd ` set (mapPush m k v)"
  by (induction m k v rule: mapPush.induct) auto

lemma bucketPoints_nonempty: "[] \<notin> snd ` set (bucketPoints points s r)"
  unfolding bucketPoints_def
  by (induction points rule: rev_induct) (auto simp: mapPush_values_nonempty)

subsection \<open>Fields of a bucket summary\<close>

lemma createBucketSummary_fields:
  "startTime (createBucketSummary bps idx bsize start outs cfg) = start + idx * bsize"
  "endTime (createBucketSummary bps idx bsize start outs cfg) = start + idx * bsize + bsize"
  "min_y (createBucketSummary bps idx bsize start outs cfg) = mathMin (map pt_y bps)"
  "max_y (createBucketSummary bps idx bsize start outs cfg) = mathMax (map pt_y bps)"
  "avg (createBucketSummary bps idx bsize start outs cfg)
     = foldl (+) 0 (map pt_y bps) / real (length bps)"
  "count (createBucketSummary bps idx bsize start outs cfg) = length bps"
  "outliers (createBucketSummary bps idx bsize start outs cfg) = []"
  "representative (createBucketSummary bps idx bsize start outs cfg)
     = chooseRepresentative bps idx bsize start outs cfg"
  unfolding createBucketSummary_def Let_def by simp_all



subsection \<open>The fast path\<close>

text \<open>
  Claim C5. When the input has at most \<open>target\<close> points, \<open>applyLOD\<close> returns exactly one
  bucket per input point, in input order, whose representative is that point; the level
  is \<open>FULL\<close>, whose value is 4, and the compression ratio is 1.
\<close>

theorem applyLOD_fast_path:
  "length points \<le> target \<Longrightarrow>
     map representative (buckets (applyLOD points target tr cfg)) = points \<and>
     length (buckets (applyLOD points target tr cfg)) = length points \<and>
     level (applyLOD points target tr cfg) = FULL \<and>
     lodLevelValue (level (applyLOD points target tr cfg)) = 4 \<and>
     compressionRatio (applyLOD points target tr cfg) = 1"
  unfolding applyLOD_def Let_def by (simp add: fullBucket_def comp_def)

theorem applyLOD_fast_path_witness:
  "length [mkPoint 0 1, mkPoint 1 2] \<le> (5::nat) \<and>
   map representative (buckets (applyLOD [mkPoint 0 1, mkPoint 1 2] 5 None None))
     = [mkPoint 0 1, mkPoint 1 2] \<and>
   length (buckets (applyLOD [mkPoint 0 1, mkPoint 1 2] 5 None None)) = 2 \<and>
   level (applyLOD [mkPoint 0 1, mkPoint 1 2] 5 None None) = FULL \<and>
   compressionRatio (applyLOD [mkPoint 0 1, mkPoint 1 2] 5 None None) = 1"
  using applyLOD_fast_path[of "[mkPoint 0 1, mkPoint 1 2]" 5 None None] by simp

subsection \<open>Empty input and a target of zero\<close>








subsection \<open>Outliers are not listed in the buckets\<close>

lemma applyLOD_outliers_empty:
  "concat (map outliers (buckets (applyLOD points target tr cfg))) = []"
  unfolding applyLOD_def Let_def
  by (simp add: fullBucket_def createBucketSummary_fields comp_def)

lemma applyLOD_outlierCount:
  "length points > target \<Longrightarrow>
     outlierCount (applyLOD points target tr cfg)
       = length (cappedOutliers points (fullConfigOf cfg target))"
  unfolding applyLOD_def Let_def by simp

lemma spike_vals: "map pt_y spikeSeries = replicate 16 0 @ [17]"
  by (simp add: spikeSeries_def flatPoint_def spikePoint_def comp_def map_replicate_const)

lemma sqrt_16: "sqrt 16 = 4"
  using real_sqrt_abs[of 4] by simp

lemma spike_length: "length spikeSeries = 17"
  by (simp add: spikeSeries_def)

lemma spike_detect: "detectOutliersZScore spikeSeries 3 = [spikePoint]"
proof -
  have mean: "foldl (+) 0 (map pt_y spikeSeries) / real (length (map pt_y spikeSeries)) = 1"
    by (simp add: spike_vals foldl_add_sum sum_list_replicate)
  have var: "foldl (\<lambda>acc v. acc + (v - 1) ^ 2) 0 (map pt_y spikeSeries)
               / real (length (map pt_y spikeSeries)) = 16"
    by (simp add: spike_vals foldl_sq_sum sum_list_replicate)
  have flt: "filter (\<lambda>p. \<bar>(pt_y p - 1) / 4\<bar> > 3) spikeSeries = [spikePoint]"
    by (simp add: spikeSeries_def filter_map comp_def flatPoint_def spikePoint_def)
  show ?thesis
    unfolding detectOutliersZScore_def Let_def mean var sqrt_16
    using flt by (simp add: spike_length)
qed

lemma spike_capped: "cappedOutliers spikeSeries (fullConfigOf None 5) = [spikePoint]"
proof -
  have fl: "\<lfloor>(17::real) * (10 / 100)\<rfloor> = 1" by (simp add: floor_eq_iff)
  show ?thesis
    by (simp add: cappedOutliers_def maxOutliersOf_def detectOutliers_def fullConfigOf_def
        DEFAULT_LOD_CONFIG_def spike_detect spike_length slice0_def fl)
qed

text \<open>
  Claim C1 fails on the code. \<open>createBucketSummary\<close> writes \<open>outliers: []\<close> into every
  bucket, so no bucket of any result lists an outlier (lemma \<open>applyLOD_outliers_empty\<close>).
  At the seventeen points of \<open>spikeSeries\<close> with target 5 and the default configuration
  the spike is flagged by the z-score method and survives the cap of
  \<open>floor(17 * 10 / 100) = 1\<close>; the result reports \<open>outlierCount = 1\<close>, and the
  \<open>outliers\<close> lists of its buckets are all empty.
\<close>

theorem applyLOD_drops_capped_outlier:
  "detectOutliers spikeSeries (fullConfigOf None 5) = [spikePoint] \<and>
   cappedOutliers spikeSeries (fullConfigOf None 5) = [spikePoint] \<and>
   outlierCount (applyLOD spikeSeries 5 None None) = 1 \<and>
   concat (map outliers (buckets (applyLOD spikeSeries 5 None None))) = []"
proof -
  have "detectOutliers spikeSeries (fullConfigOf None 5) = [spikePoint]"
    by (simp add: detectOutliers_def fullConfigOf_def DEFAULT_LOD_CONFIG_def spike_detect
        spike_length)
  moreover have "outlierCount (applyLOD spikeSeries 5 None None) = 1"
    using applyLOD_outlierCount[of 5 spikeSeries None None]
    by (simp add: spike_capped spike_length)
  ultimately show ?thesis
    by (simp add: spike_capped applyLOD_outliers_empty)
qed

text \<open>The spike is a capped outlier and is in no bucket's \<open>outliers\<close> list.\<close>

theorem applyLOD_drops_capped_outlier_witness:
  "spikePoint \<in> set (cappedOutliers spikeSeries (fullConfigOf None 5)) \<and>
   spikePoint \<notin> set (concat (map outliers (buckets (applyLOD spikeSeries 5 None None))))"
  using applyLOD_drops_capped_outlier by simp

subsection \<open>The representative of a bucket\<close>

















section \<open>Properties of the threshold validation\<close>

lemma validateThresholds_svgToCanvas: "svgToCanvas (validateThresholds c) \<ge> 100"
  unfolding validateThresholds_def Let_def by simp

lemma validateThresholds_canvasToWebGL:
  "canvasToWebGL (validateThresholds c)
     \<ge> orDefault (p_svgToCanvas c) (svgToCanvas DEFAULT_THRESHOLDS)"
  unfolding validateThresholds_def Let_def by simp

text \<open>
  Claim C4 fails on the code. The first bound holds (lemma \<open>validateThresholds_svgToCanvas\<close>).
  The second does not: \<open>canvasToWebGL\<close> is clamped against the \<open>svgToCanvas\<close> of the input,
  not against the clamped one. For the overrides \<open>svgToCanvas = 50\<close>, \<open>canvasToWebGL = 60\<close>
  the result has \<open>svgToCanvas = 100\<close> and \<open>canvasToWebGL = 60\<close>.
\<close>

theorem validateThresholds_low_overrides:
  "svgToCanvas (validateThresholds lowOverrides) = 100 \<and>
   canvasToWebGL (validateThresholds lowOverrides) = 60"
  unfolding validateThresholds_def Let_def
  by (simp add: lowOverrides_def orDefault_def DEFAULT_THRESHOLDS_def)

theorem validateThresholds_low_overrides_witness:
  "canvasToWebGL (validateThresholds lowOverrides) < svgToCanvas (validateThresholds lowOverrides)"
  using validateThresholds_low_overrides by simp

section \<open>Properties of the frame-metric ring\<close>

lemma recordFrameMetrics_frameMetrics:
  "frameMetrics (recordFrameMetrics now ft ds e) =
     (let pushed = frameMetrics e @ [metricOf (maxFrameTime (performanceBudgets (config e)))
                                       (currentTier e) (now, ft, ds)]
      in if length pushed > maxFrameMetrics then tl pushed else pushed)"
  unfolding recordFrameMetrics_def Let_def metricOf_def by simp

lemma recordFrameMetrics_keeps:
  "currentTier (recordFrameMetrics now ft ds e) = currentTier e"
  "config (recordFrameMetrics now ft ds e) = config e"
  unfolding recordFrameMetrics_def Let_def by simp_all

lemma recordAll_keeps:
  "currentTier (recordAll recs e) = currentTier e \<and> config (recordAll recs e) = config e"
  unfolding recordAll_def
  by (induction recs rule: rev_induct) (auto simp: recordFrameMetrics_keeps split: prod.splits)

text \<open>The ring after any number of recordings: the last 60 of the metrics that were in the
  ring before followed by the metrics recorded.\<close>

lemma recordAll_frameMetrics:
  assumes "length (frameMetrics e) \<le> maxFrameMetrics"
  shows "frameMetrics (recordAll recs e) =
     (let every = frameMetrics e
                  @ map (metricOf (maxFrameTime (performanceBudgets (config e))) (currentTier e)) recs
      in drop (length every - maxFrameMetrics) every)"
proof (induction recs rule: rev_induct)
  case Nil
  then show ?case using assms by (simp add: recordAll_def)
next
  case (snoc r recs)
  obtain now ft ds where r: "r = (now, ft, ds)" by (cases r) auto
  define mx where "mx = maxFrameTime (performanceBudgets (config e))"
  define every where "every = frameMetrics e @ map (metricOf mx (currentTier e)) recs"
  have step: "recordAll (recs @ [r]) e = recordFrameMetrics now ft ds (recordAll recs e)"
    by (simp add: recordAll_def r)
  have ih: "frameMetrics (recordAll recs e) = drop (length every - maxFrameMetrics) every"
    using snoc by (simp add: Let_def every_def mx_def)
  have keeps: "currentTier (recordAll recs e) = currentTier e" "config (recordAll recs e) = config e"
    using recordAll_keeps[of recs e] by simp_all
  let ?m = "metricOf mx (currentTier e) (now, ft, ds)"
  have "frameMetrics (recordAll (recs @ [r]) e) =
      (let pushed = drop (length every - maxFrameMetrics) every @ [?m]
       in if length pushed > maxFrameMetrics then tl pushed else pushed)"
    by (simp add: step recordFrameMetrics_frameMetrics ih keeps mx_def)
  also have "\<dots> = drop (length (every @ [?m]) - maxFrameMetrics) (every @ [?m])"
  proof (cases "length every \<ge> maxFrameMetrics")
    case True
    then have "length (drop (length every - maxFrameMetrics) every @ [?m]) > maxFrameMetrics"
      by simp
    moreover have "tl (drop (length every - maxFrameMetrics) every @ [?m])
        = drop (Suc (length every - maxFrameMetrics)) every @ [?m]"
    proof -
      have "drop (length every - maxFrameMetrics) every \<noteq> []"
        using True by (simp add: maxFrameMetrics_def)
      then have "tl (drop (length every - maxFrameMetrics) every @ [?m])
          = tl (drop (length every - maxFrameMetrics) every) @ [?m]"
        by simp
      then show ?thesis by (simp add: drop_Suc tl_drop)
    qed
    moreover have "drop (length (every @ [?m]) - maxFrameMetrics) (every @ [?m])
        = drop (Suc (length every - maxFrameMetrics)) every @ [?m]"
    proof -
      have "length (every @ [?m]) - maxFrameMetrics = Suc (length every - maxFrameMetrics)"
        using True by (simp add: maxFrameMetrics_def)
      moreover have "Suc (length every - maxFrameMetrics) \<le> length every"
        using True by (simp add: maxFrameMetrics_def)
      ultimately show ?thesis by simp
    qed
    ultimately show ?thesis by (simp add: Let_def)
  next
    case False
    then show ?thesis by (simp add: Let_def)
  qed
  finally show ?case
    by (simp add: Let_def every_def mx_def r)
qed

text \<open>
  Claim C9. Let the ring of an engine hold at most 60 entries, as it does in a new engine
  and after every recording. After more than 60 further recordings the ring holds exactly
  60 entries: the metrics of the most recent 60 recordings, in recording order.
\<close>

theorem frameMetrics_ring:
  assumes "length (frameMetrics e) \<le> 60" and "length recs > 60"
  shows "length (frameMetrics (recordAll recs e)) = 60 \<and>
         frameMetrics (recordAll recs e)
           = map (metricOf (maxFrameTime (performanceBudgets (config e))) (currentTier e))
               (drop (length recs - 60) recs)"
proof -
  define ms where "ms = map (metricOf (maxFrameTime (performanceBudgets (config e))) (currentTier e)) recs"
  have eq: "frameMetrics (recordAll recs e)
      = drop (length (frameMetrics e @ ms) - 60) (frameMetrics e @ ms)"
    using recordAll_frameMetrics[of e recs] assms(1)
    by (simp add: maxFrameMetrics_def Let_def ms_def)
  have len: "length ms = length recs" by (simp add: ms_def)
  have "length (frameMetrics e @ ms) - 60 = length (frameMetrics e) + (length ms - 60)"
    using assms(2) len by simp
  then have "drop (length (frameMetrics e @ ms) - 60) (frameMetrics e @ ms) = drop (length ms - 60) ms"
    by simp
  then have "frameMetrics (recordAll recs e) = drop (length recs - 60) ms"
    using eq len by simp
  then show ?thesis
    using assms(2) len by (simp add: ms_def drop_map)
qed

text \<open>61 recordings into a new engine: the first one is gone.\<close>

theorem frameMetrics_ring_witness:
  "length (frameMetrics (newEngine DEFAULT_CONFIG)) \<le> 60 \<and>
   length (map (\<lambda>i. (real i, 20, [])) [0..<61]) > 60 \<and>
   length (frameMetrics (recordAll (map (\<lambda>i. (real i, 20, [])) [0..<61]) (newEngine DEFAULT_CONFIG))) = 60 \<and>
   frameMetrics (recordAll (map (\<lambda>i. (real i, 20, [])) [0..<61]) (newEngine DEFAULT_CONFIG))
     = map (metricOf (maxFrameTime (performanceBudgets (config (newEngine DEFAULT_CONFIG))))
              (currentTier (newEngine DEFAULT_CONFIG)))
         (drop 1 (map (\<lambda>i. (real i, 20, [])) [0..<61]))"
proof -
  have a: "length (frameMetrics (newEngine DEFAULT_CONFIG)) \<le> 60"
    by (simp add: newEngine_def)
  have b: "length (map (\<lambda>i. (real i, 20::real, []::SeriesData list)) [0..<61]) > 60"
    by simp
  show ?thesis
    using frameMetrics_ring[OF a b] a by simp
qed

section \<open>Properties of the accessibility summary\<close>








subsection \<open>Eleven series with one spike each\<close>











section \<open>Properties of the performance-based degradation\<close>

text \<open>A degradation recommended by \<open>shouldDegradeTier\<close> is the next tier down in the order
  WebGL, Canvas, SVG, and never a higher tier.\<close>

lemma shouldDegradeTier_one_lower:
  "shouldDegradeTier caps now history cur budget threshold window = Some t
     \<Longrightarrow> tierIndex t = Suc (tierIndex cur)"
  unfolding shouldDegradeTier_def Let_def
  by (cases cur) (auto simp: tiers_def split: if_splits)

lemma switchTier_tier:
  "currentTier (snd (switchTier now t reason e)) = t \<or>
   currentTier (snd (switchTier now t reason e)) = currentTier e"
  unfolding switchTier_def Let_def by simp

lemma degradeCheck_never_higher:
  "tierIndex (currentTier (snd (degradeCheck caps now e))) \<ge> tierIndex (currentTier e)"
proof (cases "shouldDegradeTier caps now (performanceHistory e) (currentTier e)
                (targetFrameTime (performanceBudgets (config e)))
                (degradeFrameThreshold (performanceBudgets (config e))) 1000")
  case None
  then show ?thesis by (simp add: degradeCheck_def)
next
  case (Some t)
  then have "tierIndex t = Suc (tierIndex (currentTier e))"
    by (rule shouldDegradeTier_one_lower)
  then show ?thesis
    using Some switchTier_tier[of now t Performance e]
    by (auto simp: degradeCheck_def)
qed

text \<open>What the code does: a call of \<open>evaluateTierChange\<close> without data, in an engine
  without a forced renderer and with auto-degrade on, steps down to the next tier when at
  least \<open>degradeFrameThreshold\<close> of the snapshots of the last 1000 ms exceed
  \<open>targetFrameTime\<close>, the next tier is available on the device and its renderer is
  registered.\<close>

lemma evaluateTierChange_degrades:
  assumes "forceRenderer (thresholds (config e)) = None"
    and "autoDegrade (performanceBudgets (config e))"
    and "real (countPerformanceViolations now (performanceHistory e)
                 (targetFrameTime (performanceBudgets (config e))) 1000)
           \<ge> degradeFrameThreshold (performanceBudgets (config e))"
    and "tierIndex (currentTier e) < 2"
    and "isTierAvailable caps (tiers ! Suc (tierIndex (currentTier e)))"
    and "tiers ! Suc (tierIndex (currentTier e)) \<in> renderers e"
  shows "currentTier (snd (evaluateTierChange caps now None None None e))
           = tiers ! Suc (tierIndex (currentTier e))"
proof -
  have "shouldDegradeTier caps now (performanceHistory e) (currentTier e)
          (targetFrameTime (performanceBudgets (config e)))
          (degradeFrameThreshold (performanceBudgets (config e))) 1000
        = Some (tiers ! Suc (tierIndex (currentTier e)))"
    unfolding shouldDegradeTier_def Let_def
    using assms(3,4,5) by (simp add: tiers_def)
  then have "degradeCheck caps now e
      = switchTier now (tiers ! Suc (tierIndex (currentTier e))) Performance e"
    using assms(2) by (simp add: degradeCheck_def)
  moreover have "tiers ! Suc (tierIndex (currentTier e)) \<noteq> currentTier e"
    using assms(4) by (cases "currentTier e") (simp_all add: tiers_def)
  ultimately show ?thesis
    using assms(1,6) unfolding evaluateTierChange_def switchTier_def Let_def by simp
qed

text \<open>
  Claim C3 fails on the code. \<open>webglEngine\<close> has the default configuration, the three
  renderers registered on a device that supports them all, and is on the WebGL tier.

  Ten consecutive frames of 50 ms through \<open>render\<close> are all recorded as dropped
  (50 > 33.33), and the engine stays on WebGL: \<open>render\<close> calls \<open>evaluateTierChange\<close> only
  on every 30th frame, and then only when the point count has changed by more than 1000.

  Ten consecutive recorded frames of 200 ms followed by a call of \<open>evaluateTierChange\<close> at
  the time the last frame ended leave the engine on WebGL as well: \<open>shouldDegradeTier\<close>
  counts the snapshots of the last 1000 ms, of which there are six.
\<close>

theorem engine_keeps_tier_after_ten_slow_frames:
  "currentTier webglEngine = WEBGL \<and>
   config webglEngine = DEFAULT_CONFIG \<and>
   CANVAS \<in> renderers webglEngine \<and>
   isTierAvailable allSupported CANVAS \<and>
   map fm_frameTime (frameMetrics (slowFrames 50 10 0 webglEngine)) = replicate 10 50 \<and>
   map fm_dropped (frameMetrics (slowFrames 50 10 0 webglEngine)) = replicate 10 True \<and>
   currentTier (slowFrames 50 10 0 webglEngine) = WEBGL \<and>
   map ps_frameTime (performanceHistory (recordFrames 200 10 0 webglEngine)) = replicate 10 200 \<and>
   map ps_timestamp (performanceHistory (recordFrames 200 10 0 webglEngine))
     = [200, 400, 600, 800, 1000, 1200, 1400, 1600, 1800, 2000] \<and>
   fst (evaluateTierChange allSupported 2000 None None None (recordFrames 200 10 0 webglEngine))
     = None \<and>
   currentTier (snd (evaluateTierChange allSupported 2000 None None None
                       (recordFrames 200 10 0 webglEngine))) = WEBGL"
  by code_simp

theorem engine_keeps_tier_after_ten_slow_frames_witness:
  "currentTier (slowFrames 50 10 0 webglEngine) \<noteq> CANVAS \<and>
   currentTier (snd (evaluateTierChange allSupported 2000 None None None
                       (recordFrames 200 10 0 webglEngine))) \<noteq> CANVAS"
  using engine_keeps_tier_after_ten_slow_frames by simp

text \<open>Ten recorded frames of 50 ms, all within the last second, do make
  \<open>evaluateTierChange\<close> step down from WebGL to Canvas.\<close>

lemma engine_degrades_within_window:
  "map_option ev_to (fst (evaluateTierChange allSupported 500 None None None
                            (recordFrames 50 10 0 webglEngine))) = Some CANVAS \<and>
   map_option ev_reason (fst (evaluateTierChange allSupported 500 None None None
                            (recordFrames 50 10 0 webglEngine))) = Some Performance \<and>
   currentTier (snd (evaluateTierChange allSupported 500 None None None
                            (recordFrames 50 10 0 webglEngine))) = CANVAS"
  by code_simp

end
